theory Spec2Isabelle
  imports Main "HOL-Library.Char_ord" "HOL-Library.List_Lexorder" "HOL-Library.Multiset"
begin

section \<open>Data model\<close>

text \<open>
  The Subjects service of the guide (\<^verbatim>\<open>backend/src/subjects/subjects.service.ts\<close>) works on
  two tables, \<^verbatim>\<open>subject\<close> and \<^verbatim>\<open>audit_log\<close>. A table is the list of its rows. A varchar
  column holds a string. A uuid column holds a uuid, written as its canonical text: the
  hexadecimal digits in lower case, in groups of 8, 4, 4, 4 and 12. A JavaScript \<^verbatim>\<open>Date\<close> is
  represented by the text that its \<^verbatim>\<open>toISOString()\<close> gives, for example
  \<^verbatim>\<open>1990-01-15T00:00:00.000Z\<close>.

  The exceptions of the service are the values of \<open>error\<close>: \<^verbatim>\<open>NotFoundException\<close>,
  \<^verbatim>\<open>ForbiddenException\<close> (the Authorization failure), \<^verbatim>\<open>ConflictException\<close>,
  \<open>QueryFailed\<close> for a statement that the storage rejects (a violated constraint, a text
  that is no uuid where a uuid is expected, a failed insert), and \<open>ReferenceError\<close> for
  the evaluation of a variable that is not declared.
\<close>

datatype error = NotFound | Forbidden | Conflict | QueryFailed | ReferenceError

record center =
  center_id :: string
  center_name :: string

record subject =
  subj_id :: string
  number :: string
  name :: string
  birthDate :: string
  centerId :: string

record createSubjectDto =
  dto_number :: string
  dto_name :: string
  dto_birthDate :: string
  dto_centerId :: string

text \<open>
  \<^verbatim>\<open>UpdateSubjectDto extends PartialType(CreateSubjectDto)\<close>: every property is optional;
  \<open>None\<close> is an absent property, which reads as \<^verbatim>\<open>undefined\<close>.
\<close>

record updateSubjectDto =
  upd_number :: "string option"
  upd_name :: "string option"
  upd_birthDate :: "string option"
  upd_centerId :: "string option"

text \<open>
  The \<^verbatim>\<open>diff\<close> column is \<^verbatim>\<open>Record<string, any>\<close>, stored as jsonb. The values the service
  builds are strings and objects; a property of an object in memory may be \<^verbatim>\<open>undefined\<close>.
\<close>

datatype json = JUndefined | JStr string | JObj "(string \<times> json) list"

record auditLog =
  log_id :: string
  subjectId :: "string option"
  userId :: "string option"
  action :: string
  diff :: json
  timestamp :: int

record db =
  subjects :: "subject list"
  auditLogs :: "auditLog list"

text \<open>
  What the service is given and does not define itself:
  \<^item> \<open>findUserCenters\<close>: \<^verbatim>\<open>usersService.findUserCenters(userId)\<close>, the access scope of a user
    (it may fail, for a user that does not exist);
  \<^item> \<open>centersFindOne\<close>: \<^verbatim>\<open>centersService.findOne(centerId, userId)\<close>, a center or nothing;
  \<^item> \<open>newDate\<close>: \<^verbatim>\<open>new Date(s)\<close> of the JavaScript runtime, as the ISO text of the result;
  \<^item> \<open>jsonbText\<close>: the text that PostgreSQL's \<^verbatim>\<open>->>\<close> gives for a jsonb value that is not
    a string;
  \<^item> \<open>otherUuidForms\<close>: the uuid that the storage reads from a text that is not of the
    shape 8-4-4-4-12 (other spellings of a uuid that it may accept), or nothing;
  \<^item> \<open>generatedSubjectId\<close>, \<open>generatedLogId\<close>: the uuid that the storage generates for the
    next inserted row (\<^verbatim>\<open>@PrimaryGeneratedColumn('uuid')\<close>);
  \<^item> \<open>now\<close>: the time of the storage (\<^verbatim>\<open>@CreateDateColumn\<close>);
  \<^item> \<open>auditLogInsertFails\<close>: whether the storage rejects the next insert into \<^verbatim>\<open>audit_log\<close>;
  \<^item> \<open>historicalCenter\<close>: the center that the audit history records for a subject that is
    no longer in the \<^verbatim>\<open>subject\<close> table.
\<close>

record env =
  findUserCenters :: "string \<Rightarrow> error + string list"
  centersFindOne :: "string \<Rightarrow> string \<Rightarrow> center option"
  newDate :: "string \<Rightarrow> string"
  jsonbText :: "json \<Rightarrow> string"
  otherUuidForms :: "string \<Rightarrow> string option"
  generatedSubjectId :: string
  generatedLogId :: string
  now :: int
  auditLogInsertFails :: bool
  historicalCenter :: "auditLog list \<Rightarrow> string \<Rightarrow> string option"

section \<open>Texts and uuids\<close>

text \<open>
  The test \<^verbatim>\<open>/^[0-9a-f]{8}-[0-9a-f]{4}-[0-9a-f]{4}-[0-9a-f]{4}-[0-9a-f]{12}$/i\<close> of
  \<^verbatim>\<open>getAuditLogs\<close>: groups of hexadecimal digits of the given lengths, in either letter
  case, with a hyphen between two groups.
\<close>

definition isHexDigit :: "char \<Rightarrow> bool" where
  "isHexDigit c = (c \<in> set ''0123456789abcdefABCDEF'')"

fun hexGroups :: "nat list \<Rightarrow> string \<Rightarrow> bool" where
  "hexGroups [] s = (s = [])"
| "hexGroups [n] s = (length s = n \<and> list_all isHexDigit s)"
| "hexGroups (n # m # ns) s =
     (length (take n s) = n \<and> list_all isHexDigit (take n s) \<and>
      (case drop n s of [] \<Rightarrow> False | c # rest \<Rightarrow> c = CHR ''-'' \<and> hexGroups (m # ns) rest))"

definition isUUID :: "string \<Rightarrow> bool" where
  "isUUID s = hexGroups [8, 4, 4, 4, 12] s"

text \<open>
  The service hands identifiers to the storage as texts, and the storage reads a text
  that is compared with a uuid column, or stored in one, as a uuid. A text of the shape
  8-4-4-4-12 is that uuid whatever its letter case: two such texts that differ in case
  only are the same uuid. A text that the storage cannot read as a uuid makes the
  statement fail.
\<close>

definition lowerHex :: "char \<Rightarrow> char" where
  "lowerHex c =
     (if c = CHR ''A'' then CHR ''a'' else if c = CHR ''B'' then CHR ''b''
      else if c = CHR ''C'' then CHR ''c'' else if c = CHR ''D'' then CHR ''d''
      else if c = CHR ''E'' then CHR ''e'' else if c = CHR ''F'' then CHR ''f'' else c)"

definition uuidIn :: "env \<Rightarrow> string \<Rightarrow> string option" where
  "uuidIn e s = (if isUUID s then Some (map lowerHex s) else otherUuidForms e s)"

text \<open>A JavaScript string is truthy when it is not empty; \<^verbatim>\<open>null\<close> and \<^verbatim>\<open>undefined\<close> are not.\<close>

definition truthy :: "string option \<Rightarrow> bool" where
  "truthy v = (case v of None \<Rightarrow> False | Some s \<Rightarrow> s \<noteq> [])"

section \<open>The storage\<close>

text \<open>
  \<^verbatim>\<open>subjectsRepository.save\<close> of an entity without identifier is an INSERT: the storage
  generates the identifier and enforces the primary key and the unique constraint of
  \<^verbatim>\<open>number\<close> (\<^verbatim>\<open>@Column({ type: 'varchar', length: 50, unique: true })\<close>).
\<close>

definition saveNew :: "subject \<Rightarrow> subject list \<Rightarrow> error + subject list" where
  "saveNew s rows =
     (if list_ex (\<lambda>r. number r = number s) rows \<or> list_ex (\<lambda>r. subj_id r = subj_id s) rows
      then Inl QueryFailed
      else Inr (rows @ [s]))"

text \<open>
  \<^verbatim>\<open>subjectsRepository.save\<close> of a loaded entity is an UPDATE of the row with its identifier,
  under the same unique constraint. \<^verbatim>\<open>findOne\<close> loads the entity with its \<^verbatim>\<open>center\<close> relation
  (\<^verbatim>\<open>relations: ['center']\<close>), and \<^verbatim>\<open>Object.assign\<close> changes the \<^verbatim>\<open>centerId\<close> property and not
  the relation: \<^verbatim>\<open>save\<close> takes the \<^verbatim>\<open>center_id\<close> of the row from the loaded relation
  (\<open>loadedCenter\<close>), so the row keeps the center it was loaded with.
\<close>

definition saveLoaded :: "subject \<Rightarrow> string \<Rightarrow> subject list \<Rightarrow> error + subject list" where
  "saveLoaded s loadedCenter rows =
     (let row = s\<lparr>centerId := loadedCenter\<rparr>
      in if list_ex (\<lambda>r. subj_id r \<noteq> subj_id row \<and> number r = number row) rows
         then Inl QueryFailed
         else Inr (map (\<lambda>r. if subj_id r = subj_id row then row else r) rows))"

text \<open>
  A jsonb column holds what \<^verbatim>\<open>JSON.stringify\<close> keeps of the value: a property whose value
  is \<^verbatim>\<open>undefined\<close> is dropped.
\<close>

fun stripUndefined :: "json \<Rightarrow> json"
  and stripFields :: "(string \<times> json) list \<Rightarrow> (string \<times> json) list" where
  "stripUndefined (JObj kvs) = JObj (stripFields kvs)"
| "stripUndefined (JStr s) = JStr s"
| "stripUndefined JUndefined = JUndefined"
| "stripFields [] = []"
| "stripFields ((k, v) # kvs) =
     (if v = JUndefined then stripFields kvs else (k, stripUndefined v) # stripFields kvs)"

text \<open>The jsonb operators \<^verbatim>\<open>->\<close> (a member, as jsonb) and \<^verbatim>\<open>->>\<close> (a member, as text).\<close>

fun arrow :: "json \<Rightarrow> string \<Rightarrow> json option" where
  "arrow (JObj kvs) k = map_of kvs k"
| "arrow _ k = None"

definition arrowText :: "env \<Rightarrow> json \<Rightarrow> string \<Rightarrow> string option" where
  "arrowText e j k =
     (case arrow j k of
        None \<Rightarrow> None
      | Some JUndefined \<Rightarrow> None
      | Some (JStr s) \<Rightarrow> Some s
      | Some (JObj kvs) \<Rightarrow> Some (jsonbText e (JObj kvs)))"

text \<open>
  Modelled from the spec: \<^verbatim>\<open>createAuditLog(userId, subjectId, action, diff)\<close> is called by
  the service and not shown. It appends an AuditLogEntry with the subject reference, the
  user reference, the action tag, the diff payload and the creation time. The subject
  reference is a uuid column: it holds the uuid that the storage reads from the text it
  is given. The write can be rejected by the storage, as every write can, and it is
  rejected when the text is no uuid.
\<close>

definition auditEntry :: "env \<Rightarrow> string \<Rightarrow> string \<Rightarrow> string \<Rightarrow> json \<Rightarrow> auditLog" where
  "auditEntry e uid sid act d =
     \<lparr>log_id = generatedLogId e, subjectId = uuidIn e sid, userId = Some uid,
      action = act, diff = stripUndefined d, timestamp = now e\<rparr>"

definition auditWriteRejected :: "env \<Rightarrow> string \<Rightarrow> bool" where
  "auditWriteRejected e sid = (auditLogInsertFails e \<or> uuidIn e sid = None)"

definition createAuditLog :: "env \<Rightarrow> string \<Rightarrow> string \<Rightarrow> string \<Rightarrow> json \<Rightarrow> db \<Rightarrow> error + db" where
  "createAuditLog e uid sid act d st =
     (if auditWriteRejected e sid then Inl QueryFailed
      else Inr (st\<lparr>auditLogs := auditLogs st @ [auditEntry e uid sid act d]\<rparr>))"

section \<open>Reading subjects\<close>

text \<open>
  \<^verbatim>\<open>findAll\<close> and \<^verbatim>\<open>findOne\<close> as in section 4.3 of the guide (section 3.2 shows \<^verbatim>\<open>findAll\<close>
  in short, without the test on the empty scope). The query of \<^verbatim>\<open>findAll\<close> selects the rows
  whose center is one of the scope, in the order of their numbers; the order of strings is
  the lexicographic order on the character codes. The query of \<^verbatim>\<open>findOne\<close> compares the
  primary key, a uuid column, with the \<^verbatim>\<open>id\<close> it is given, which is any text of the
  request path. The joined \<^verbatim>\<open>center\<close> relation of the rows is left out of the result.
\<close>

definition findAll :: "env \<Rightarrow> db \<Rightarrow> string \<Rightarrow> error + subject list" where
  "findAll e st uid =
     (case findUserCenters e uid of
        Inl err \<Rightarrow> Inl err
      | Inr userCenterIds \<Rightarrow>
          if length userCenterIds = 0 then Inr []
          else Inr (sort_key number
                 (filter (\<lambda>s. centerId s \<in> set userCenterIds) (subjects st))))"

definition findOne :: "env \<Rightarrow> db \<Rightarrow> string \<Rightarrow> string \<Rightarrow> error + subject" where
  "findOne e st i uid =
     (case uuidIn e i of
        None \<Rightarrow> Inl QueryFailed
      | Some u \<Rightarrow>
          (case find (\<lambda>s. subj_id s = u) (subjects st) of
             None \<Rightarrow> Inl NotFound
           | Some s \<Rightarrow>
               (case findUserCenters e uid of
                  Inl err \<Rightarrow> Inl err
                | Inr userCenterIds \<Rightarrow>
                    if centerId s \<notin> set userCenterIds then Inl Forbidden else Inr s)))"

section \<open>Creating a subject\<close>

text \<open>
  Modelled from the spec: the diff payload of a CREATE entry is elided in the guide
  (\<^verbatim>\<open>{...}\<close>); it contains the full initial field set.
\<close>

definition createDiff :: "subject \<Rightarrow> json" where
  "createDiff s =
     JObj [(''number'', JStr (number s)), (''name'', JStr (name s)),
           (''birthDate'', JStr (birthDate s)), (''centerId'', JStr (centerId s))]"

text \<open>
  \<^verbatim>\<open>create\<close> as in section 1.3 of the guide. \<open>newSubject\<close> is the entity that
  \<^verbatim>\<open>subjectsRepository.create\<close> builds, with the identifier that the insert will give it.
  The result of the duplicate lookup, \<open>existingSubject\<close>, is bound and not used. The state
  that is returned is the storage after the call, also when the call throws. Section 3.1
  of the guide shows the method again in short, without the access check and without the
  lookup; the two writes are the same there.
\<close>

definition newSubject :: "env \<Rightarrow> createSubjectDto \<Rightarrow> subject" where
  "newSubject e dto =
     \<lparr>subj_id = generatedSubjectId e, number = dto_number dto, name = dto_name dto,
      birthDate = newDate e (dto_birthDate dto), centerId = dto_centerId dto\<rparr>"

definition create :: "env \<Rightarrow> db \<Rightarrow> createSubjectDto \<Rightarrow> string \<Rightarrow> (error + subject) \<times> db" where
  "create e st dto uid =
     (case findUserCenters e uid of
        Inl err \<Rightarrow> (Inl err, st)
      | Inr userCenterIds \<Rightarrow>
          if dto_centerId dto \<notin> set userCenterIds then (Inl Forbidden, st)
          else
            let existingSubject = find (\<lambda>s. number s = dto_number dto) (subjects st);
                s = newSubject e dto
            in (case saveNew s (subjects st) of
                  Inl err \<Rightarrow> (Inl err, st)
                | Inr rows \<Rightarrow>
                    let st1 = st\<lparr>subjects := rows\<rparr>
                    in (case createAuditLog e uid (subj_id s) ''CREATE'' (createDiff s) st1 of
                          Inl err \<Rightarrow> (Inl err, st1)
                        | Inr st2 \<Rightarrow> (Inr s, st2))))"

section \<open>Updating a subject\<close>

text \<open>
  \<^verbatim>\<open>Object.assign(subject, updateSubjectDto)\<close> copies the properties that the payload has.
  The birth date of the payload is a string; the row keeps the date it denotes.
\<close>

definition objectAssign :: "env \<Rightarrow> subject \<Rightarrow> updateSubjectDto \<Rightarrow> subject" where
  "objectAssign e s dto =
     s\<lparr>number := (case upd_number dto of None \<Rightarrow> number s | Some v \<Rightarrow> v),
       name := (case upd_name dto of None \<Rightarrow> name s | Some v \<Rightarrow> v),
       birthDate := (case upd_birthDate dto of None \<Rightarrow> birthDate s | Some v \<Rightarrow> newDate e v),
       centerId := (case upd_centerId dto of None \<Rightarrow> centerId s | Some v \<Rightarrow> v)\<rparr>"

definition optJson :: "string option \<Rightarrow> json" where
  "optJson v = (case v of None \<Rightarrow> JUndefined | Some s \<Rightarrow> JStr s)"

text \<open>\<^verbatim>\<open>c?.name || 'Unknown'\<close>: the sentinel stands for a missing center and for an empty name.\<close>

definition centerNameOrUnknown :: "center option \<Rightarrow> string" where
  "centerNameOrUnknown c =
     (case c of None \<Rightarrow> ''Unknown''
      | Some x \<Rightarrow> if center_name x = [] then ''Unknown'' else center_name x)"

text \<open>
  Step 3 of \<^verbatim>\<open>update\<close>, the four tests in their order; \<open>old\<close> is \<^verbatim>\<open>oldData\<close>. The tests on
  the number and on the name read the payload without asking whether it has the
  property.
\<close>

definition numberDiff :: "subject \<Rightarrow> updateSubjectDto \<Rightarrow> (string \<times> json) list" where
  "numberDiff old dto =
     (if upd_number dto \<noteq> Some (number old)
      then [(''number'', JObj [(''old'', JStr (number old)), (''new'', optJson (upd_number dto))])]
      else [])"

definition nameDiff :: "subject \<Rightarrow> updateSubjectDto \<Rightarrow> (string \<times> json) list" where
  "nameDiff old dto =
     (if upd_name dto \<noteq> Some (name old)
      then [(''name'', JObj [(''old'', JStr (name old)), (''new'', optJson (upd_name dto))])]
      else [])"

text \<open>
  The test on the birth date: when the payload has one, the old day is read as
  \<^verbatim>\<open>oldBirthDate.toISOString().split('T')[0]\<close>. No line of the method declares
  \<^verbatim>\<open>oldBirthDate\<close> (the old date is \<^verbatim>\<open>oldData.birthDate\<close>), so evaluating it throws a
  \<^verbatim>\<open>ReferenceError\<close>, and the comparison of the two days is never reached.
\<close>

definition birthDateDiff :: "updateSubjectDto \<Rightarrow> error + (string \<times> json) list" where
  "birthDateDiff dto =
     (case upd_birthDate dto of
        None \<Rightarrow> Inr []
      | Some newBirthDateStr \<Rightarrow>
          if newBirthDateStr = [] then Inr [] else Inl ReferenceError)"

definition centerDiff :: "env \<Rightarrow> subject \<Rightarrow> updateSubjectDto \<Rightarrow> string \<Rightarrow> (string \<times> json) list" where
  "centerDiff e old dto uid =
     (case upd_centerId dto of
        None \<Rightarrow> []
      | Some c \<Rightarrow>
          if c \<noteq> [] \<and> c \<noteq> centerId old
          then
            let oldCenter = centersFindOne e (centerId old) uid;
                newCenter = centersFindOne e c uid
            in [(''center'',
                 JObj [(''old'', JObj [(''id'', JStr (centerId old)),
                                       (''name'', JStr (centerNameOrUnknown oldCenter))]),
                       (''new'', JObj [(''id'', JStr c),
                                       (''name'', JStr (centerNameOrUnknown newCenter))])])]
          else [])"

definition updateDiff ::
  "env \<Rightarrow> subject \<Rightarrow> updateSubjectDto \<Rightarrow> string \<Rightarrow> error + (string \<times> json) list" where
  "updateDiff e old dto uid =
     (case birthDateDiff dto of
        Inl err \<Rightarrow> Inl err
      | Inr b \<Rightarrow> Inr (numberDiff old dto @ nameDiff old dto @ b @ centerDiff e old dto uid))"

text \<open>
  \<^verbatim>\<open>update\<close> as in section 3.3 of the guide. The value it returns is the entity after
  \<^verbatim>\<open>Object.assign\<close>; the row that is written is that entity with the center of the loaded
  relation.
\<close>

definition update :: "env \<Rightarrow> db \<Rightarrow> string \<Rightarrow> updateSubjectDto \<Rightarrow> string \<Rightarrow> (error + subject) \<times> db" where
  "update e st i dto uid =
     (case findOne e st i uid of
        Inl err \<Rightarrow> (Inl err, st)
      | Inr oldData \<Rightarrow>
          let s = objectAssign e oldData dto
          in (case saveLoaded s (centerId oldData) (subjects st) of
                Inl err \<Rightarrow> (Inl err, st)
              | Inr rows \<Rightarrow>
                  let st1 = st\<lparr>subjects := rows\<rparr>
                  in (case updateDiff e oldData dto uid of
                        Inl err \<Rightarrow> (Inl err, st1)
                      | Inr d \<Rightarrow>
                          if length d > 0
                          then (case createAuditLog e uid i ''UPDATE''
                                       (JObj (d @ [(''subjectId'', JStr i)])) st1 of
                                  Inl err \<Rightarrow> (Inl err, st1)
                                | Inr st2 \<Rightarrow> (Inr s, st2))
                          else (Inr s, st1))))"

section \<open>The audit history of a subject\<close>

text \<open>
  The scan for a deleted subject:
  \<^verbatim>\<open>diff->>'number' = :number OR diff->'number'->>'new' = :number\<close>.
\<close>

definition numberMatches :: "env \<Rightarrow> string \<Rightarrow> auditLog \<Rightarrow> bool" where
  "numberMatches e n l =
     (arrowText e (diff l) ''number'' = Some n \<or>
      (case arrow (diff l) ''number'' of
         None \<Rightarrow> False
       | Some v \<Rightarrow> arrowText e v ''new'' = Some n))"

definition resolveSubjectId :: "env \<Rightarrow> db \<Rightarrow> string \<Rightarrow> string option" where
  "resolveSubjectId e st subjectIdOrNumber =
     (if isUUID subjectIdOrNumber then Some subjectIdOrNumber
      else
        (case find (\<lambda>s. number s = subjectIdOrNumber) (subjects st) of
           Some s \<Rightarrow> Some (subj_id s)
         | None \<Rightarrow>
             (case sort_key timestamp
                     (filter (numberMatches e subjectIdOrNumber) (auditLogs st)) of
                [] \<Rightarrow> None
              | anyLogWithNumber # _ \<Rightarrow>
                  if truthy (subjectId anyLogWithNumber) then subjectId anyLogWithNumber
                  else None)))"

text \<open>
  \<^verbatim>\<open>subject_id = :subjectId OR diff->>'subjectId' = :subjectId::text\<close>, newest first. The
  parameter is compared with the uuid column, so the storage reads it as a uuid \<open>u\<close>;
  \<^verbatim>\<open>:subjectId::text\<close> is the canonical text of that uuid.
\<close>

definition references :: "env \<Rightarrow> string \<Rightarrow> auditLog \<Rightarrow> bool" where
  "references e u l =
     (subjectId l = Some u \<or> arrowText e (diff l) ''subjectId'' = Some u)"

definition auditLogsOf :: "env \<Rightarrow> db \<Rightarrow> string \<Rightarrow> error + auditLog list" where
  "auditLogsOf e st sid =
     (case uuidIn e sid of
        None \<Rightarrow> Inl QueryFailed
      | Some u \<Rightarrow>
          Inr (sort_key (\<lambda>l. - timestamp l) (filter (references e u) (auditLogs st))))"

text \<open>
  Modelled from the spec: the guide elides the access check at the end of
  \<^verbatim>\<open>getAuditLogs\<close> (\<^verbatim>\<open>// ... access control logic ...\<close>). By the spec, if the resolved
  subject's (possibly historical) center is not in the caller's scope, the call fails with
  Authorization. The center of a subject is the \<^verbatim>\<open>centerId\<close> of its row, and for a subject
  without row what the audit history records.
\<close>

definition subjectCenter :: "env \<Rightarrow> db \<Rightarrow> string \<Rightarrow> string option" where
  "subjectCenter e st sid =
     (case uuidIn e sid of
        None \<Rightarrow> None
      | Some u \<Rightarrow>
          (case find (\<lambda>s. subj_id s = u) (subjects st) of
             Some s \<Rightarrow> Some (centerId s)
           | None \<Rightarrow> historicalCenter e (auditLogs st) u))"

definition accessControl :: "env \<Rightarrow> db \<Rightarrow> string option \<Rightarrow> string list \<Rightarrow> error + unit" where
  "accessControl e st sidOpt userCenterIds =
     (case sidOpt of
        None \<Rightarrow> Inr ()
      | Some sid \<Rightarrow>
          if sid = [] then Inr ()
          else
            (case subjectCenter e st sid of
               None \<Rightarrow> Inr ()
             | Some c \<Rightarrow> if c \<in> set userCenterIds then Inr () else Inl Forbidden))"

definition getAuditLogs :: "env \<Rightarrow> db \<Rightarrow> string \<Rightarrow> string \<Rightarrow> error + auditLog list" where
  "getAuditLogs e st subjectIdOrNumber uid =
     (let sidOpt = resolveSubjectId e st subjectIdOrNumber
      in (case (case sidOpt of
                  None \<Rightarrow> Inr []
                | Some sid \<Rightarrow> if sid \<noteq> [] then auditLogsOf e st sid else Inr []) of
            Inl err \<Rightarrow> Inl err
          | Inr logs \<Rightarrow>
              (case findUserCenters e uid of
                 Inl err \<Rightarrow> Inl err
               | Inr userCenterIds \<Rightarrow>
                   (case accessControl e st sidOpt userCenterIds of
                      Inl err \<Rightarrow> Inl err
                    | Inr u \<Rightarrow> Inr logs))))"

section \<open>Example data\<close>

text \<open>
  A small installation, used to run the service on concrete inputs: three users (alice
  with two centers, bob with none, carol with a third center), two known centers and one
  subject with its CREATE entry. The storage of the examples reads a uuid from a text of
  the shape 8-4-4-4-12 only.
\<close>

abbreviation idA :: string where
  "idA \<equiv> ''3f2a9c1e-7b4d-4e6f-8a1b-0c9d8e7f6a5b''"

abbreviation idA_upper :: string where
  "idA_upper \<equiv> ''3F2A9C1E-7B4D-4E6F-8A1B-0C9D8E7F6A5B''"

abbreviation idB :: string where
  "idB \<equiv> ''9b1d0c2e-5a6f-4b7c-9d8e-1f2a3b4c5d6e''"

definition exampleScopes :: "string \<Rightarrow> error + string list" where
  "exampleScopes u =
     (if u = ''alice'' then Inr [''center-1'', ''center-2'']
      else if u = ''bob'' then Inr []
      else if u = ''carol'' then Inr [''center-3'']
      else Inl NotFound)"

definition exampleCenters :: "string \<Rightarrow> string \<Rightarrow> center option" where
  "exampleCenters c u =
     (if c = ''center-1'' then Some \<lparr>center_id = ''center-1'', center_name = ''Center A''\<rparr>
      else if c = ''center-2'' then Some \<lparr>center_id = ''center-2'', center_name = ''Center B''\<rparr>
      else None)"

text \<open>A rendering of jsonb values as text, for the examples.\<close>

fun renderJson :: "json \<Rightarrow> string"
  and renderFields :: "(string \<times> json) list \<Rightarrow> string" where
  "renderJson JUndefined = ''null''"
| "renderJson (JStr s) = CHR 0x22 # s @ [CHR 0x22]"
| "renderJson (JObj kvs) = ''{'' @ renderFields kvs @ ''}''"
| "renderFields [] = []"
| "renderFields ((k, v) # kvs) =
     (CHR 0x22 # k @ [CHR 0x22]) @ '': '' @ renderJson v @
     (if kvs = [] then [] else '', '' @ renderFields kvs)"

definition exampleEnv :: env where
  "exampleEnv =
     \<lparr>findUserCenters = exampleScopes, centersFindOne = exampleCenters,
      newDate = (\<lambda>s. s @ ''T00:00:00.000Z''), jsonbText = renderJson,
      otherUuidForms = (\<lambda>s. None),
      generatedSubjectId = idB, generatedLogId = ''log-2'', now = 20,
      auditLogInsertFails = False, historicalCenter = (\<lambda>logs sid. None)\<rparr>"

definition subjectA :: subject where
  "subjectA =
     \<lparr>subj_id = idA, number = ''SUB-001'', name = ''John Doe'',
      birthDate = ''1990-01-15T00:00:00.000Z'', centerId = ''center-1''\<rparr>"

definition subjectB :: subject where
  "subjectB =
     \<lparr>subj_id = idB, number = ''SUB-002'', name = ''Jane Roe'',
      birthDate = ''1985-03-02T00:00:00.000Z'', centerId = ''center-2''\<rparr>"

definition exampleDb :: db where
  "exampleDb =
     \<lparr>subjects = [subjectA],
      auditLogs = [\<lparr>log_id = ''log-1'', subjectId = Some idA, userId = Some ''alice'',
                    action = ''CREATE'', diff = createDiff subjectA, timestamp = 10\<rparr>]\<rparr>"

text \<open>Payloads: a new subject, a subject with a number that is taken, and \<^verbatim>\<open>{name: x}\<close>.\<close>

definition dtoB :: createSubjectDto where
  "dtoB =
     \<lparr>dto_number = ''SUB-002'', dto_name = ''Jane Roe'', dto_birthDate = ''1985-03-02'',
      dto_centerId = ''center-2''\<rparr>"

definition dtoDuplicate :: createSubjectDto where
  "dtoDuplicate =
     \<lparr>dto_number = ''SUB-001'', dto_name = ''Jane Roe'', dto_birthDate = ''1985-03-02'',
      dto_centerId = ''center-2''\<rparr>"

definition nameOnly :: "string \<Rightarrow> updateSubjectDto" where
  "nameOnly x =
     \<lparr>upd_number = None, upd_name = Some x, upd_birthDate = None, upd_centerId = None\<rparr>"

text \<open>The same installation at a moment when the storage rejects inserts into \<^verbatim>\<open>audit_log\<close>.\<close>

definition failingEnv :: env where
  "failingEnv = exampleEnv\<lparr>auditLogInsertFails := True\<rparr>"

text \<open>
  The payload that the form of the guide's frontend sends (all four properties): the
  stored number and day, another name and another center, which the center service does
  not know. And the same payload without the birth date.
\<close>

abbreviation centerNew :: string where
  "centerNew \<equiv> ''0c0c0c0c-9999-4aaa-8bbb-cccccccccccc''"

definition dtoMove :: updateSubjectDto where
  "dtoMove =
     \<lparr>upd_number = Some ''SUB-001'', upd_name = Some ''Jane Doe'',
      upd_birthDate = Some ''1990-01-15'', upd_centerId = Some centerNew\<rparr>"

definition dtoMoveNoDate :: updateSubjectDto where
  "dtoMoveNoDate =
     \<lparr>upd_number = Some ''SUB-001'', upd_name = Some ''Jane Doe'',
      upd_birthDate = None, upd_centerId = Some centerNew\<rparr>"

text \<open>
  A longer history. Subject A was created with the number \<^verbatim>\<open>OLD-7\<close>, renumbered to
  \<^verbatim>\<open>MID-8\<close> and then to \<^verbatim>\<open>SUB-001\<close>; one more entry names A in its diff only, with no
  subject reference. Subject B has its CREATE entry.
\<close>

definition logA0 :: auditLog where
  "logA0 =
     \<lparr>log_id = ''log-a0'', subjectId = Some idA, userId = Some ''alice'', action = ''CREATE'',
      diff = createDiff (subjectA\<lparr>number := ''OLD-7''\<rparr>), timestamp = 5\<rparr>"

definition logB0 :: auditLog where
  "logB0 =
     \<lparr>log_id = ''log-b0'', subjectId = Some idB, userId = Some ''alice'', action = ''CREATE'',
      diff = createDiff subjectB, timestamp = 8\<rparr>"

definition logA1 :: auditLog where
  "logA1 =
     \<lparr>log_id = ''log-a1'', subjectId = Some idA, userId = Some ''alice'', action = ''UPDATE'',
      diff = JObj [(''number'', JObj [(''old'', JStr ''OLD-7''), (''new'', JStr ''MID-8'')]),
                   (''subjectId'', JStr idA)],
      timestamp = 10\<rparr>"

definition logA2 :: auditLog where
  "logA2 =
     \<lparr>log_id = ''log-a2'', subjectId = Some idA, userId = Some ''alice'', action = ''UPDATE'',
      diff = JObj [(''number'', JObj [(''old'', JStr ''MID-8''), (''new'', JStr ''SUB-001'')]),
                   (''subjectId'', JStr idA)],
      timestamp = 12\<rparr>"

definition logA3 :: auditLog where
  "logA3 =
     \<lparr>log_id = ''log-a3'', subjectId = None, userId = Some ''alice'', action = ''UPDATE'',
      diff = JObj [(''name'', JObj [(''old'', JStr ''Jon Doe''), (''new'', JStr ''John Doe'')]),
                   (''subjectId'', JStr idA)],
      timestamp = 15\<rparr>"

definition historyDb :: db where
  "historyDb =
     \<lparr>subjects = [subjectA, subjectB], auditLogs = [logA0, logB0, logA1, logA2, logA3]\<rparr>"

text \<open>
  A subject whose number has the shape of a UUID and is another uuid than its
  identifier, and a subject whose number is its own identifier in upper case, each with
  its CREATE entry.
\<close>

abbreviation idU :: string where
  "idU \<equiv> ''5e4d3c2b-1a0f-4e9d-8c7b-6a5f4e3d2c1b''"

abbreviation idU_upper :: string where
  "idU_upper \<equiv> ''5E4D3C2B-1A0F-4E9D-8C7B-6A5F4E3D2C1B''"

abbreviation numberU :: string where
  "numberU \<equiv> ''ABCDEF01-2345-6789-abcd-ef0123456789''"

definition subjectU :: subject where
  "subjectU =
     \<lparr>subj_id = idU, number = numberU, name = ''Ursula Unger'',
      birthDate = ''1970-07-07T00:00:00.000Z'', centerId = ''center-1''\<rparr>"

definition logU :: auditLog where
  "logU =
     \<lparr>log_id = ''log-7'', subjectId = Some idU, userId = Some ''alice'',
      action = ''CREATE'', diff = createDiff subjectU, timestamp = 7\<rparr>"

definition dbU :: db where
  "dbU = \<lparr>subjects = [subjectU], auditLogs = [logU]\<rparr>"




lemmas example_defs = exampleEnv_def exampleScopes_def exampleCenters_def exampleDb_def
  subjectA_def subjectB_def

lemmas history_defs = historyDb_def logA0_def logB0_def logA1_def logA2_def logA3_def

lemmas uuid_defs = uuidIn_def isUUID_def isHexDigit_def lowerHex_def

lemmas diff_defs = updateDiff_def numberDiff_def nameDiff_def birthDateDiff_def centerDiff_def
  optJson_def

section \<open>Lookups in a table\<close>

lemma find_by_key:
  "distinct (map f xs) \<Longrightarrow> s \<in> set xs \<Longrightarrow> find (\<lambda>r. f r = f s) xs = Some s"
  by (induction xs) (auto simp: image_iff)







lemma saveLoaded_rows:
  "saveLoaded s c rows = Inr rows' \<Longrightarrow>
   rows' = map (\<lambda>r. if subj_id r = subj_id s then s\<lparr>centerId := c\<rparr> else r) rows"
  by (simp add: saveLoaded_def Let_def split: if_splits)

section \<open>Reading a text as a uuid\<close>

lemma uuidIn_isUUID: "isUUID s \<Longrightarrow> uuidIn e s = Some (map lowerHex s)"
  by (simp add: uuidIn_def)

lemma findOne_Inr:
  "findOne e st i uid = Inr old \<Longrightarrow>
   \<exists>u. uuidIn e i = Some u \<and> find (\<lambda>s. subj_id s = u) (subjects st) = Some old \<and>
       subj_id old = u"
  by (auto simp: findOne_def find_Some_iff split: option.splits sum.splits if_splits)

section \<open>Facts about the example data\<close>

lemma alice_scope:
  "findUserCenters exampleEnv ''alice'' = Inr [''center-1'', ''center-2'']"
  by (simp add: example_defs)

lemma uuidIn_idA: "uuidIn exampleEnv idA = Some idA"
  by (simp add: uuid_defs)

lemma uuidIn_idA_upper: "uuidIn exampleEnv idA_upper = Some idA"
  by (simp add: uuid_defs)

lemma uuidIn_idB: "uuidIn exampleEnv idB = Some idB"
  by (simp add: uuid_defs)

lemma uuidIn_idU: "uuidIn exampleEnv idU = Some idU"
  by (simp add: uuid_defs)

lemma uuidIn_idU_upper: "uuidIn exampleEnv idU_upper = Some idU"
  by (simp add: uuid_defs)

lemma uuidIn_SUB_001: "uuidIn exampleEnv ''SUB-001'' = None"
  by (simp add: uuid_defs exampleEnv_def)

lemma findOne_alice_A: "findOne exampleEnv exampleDb idA ''alice'' = Inr subjectA"
  by (simp add: findOne_def uuidIn_idA) (simp add: example_defs)

lemma audit_insert_ok: "\<not> auditLogInsertFails exampleEnv"
  by (simp add: exampleEnv_def)

lemma newSubject_dtoB: "newSubject exampleEnv dtoB = subjectB"
  by (simp add: newSubject_def dtoB_def example_defs)

lemma objectAssign_nameOnly: "objectAssign e s (nameOnly x) = s\<lparr>name := x\<rparr>"
  by (simp add: objectAssign_def nameOnly_def)


lemma isUUID_idU_upper: "isUUID idU_upper"
  by (simp add: isUUID_def isHexDigit_def)

lemma isUUID_idA_upper: "isUUID idA_upper"
  by (simp add: isUUID_def isHexDigit_def)

lemma not_isUUID_SUB_001: "\<not> isUUID ''SUB-001''"
  by (simp add: isUUID_def isHexDigit_def)




section \<open>Creating a subject whose number is taken\<close>

lemma create_never_Conflict:
  "findUserCenters e uid = Inr scope \<Longrightarrow> fst (create e st dto uid) \<noteq> Inl Conflict"
  by (auto simp: create_def saveNew_def createAuditLog_def Let_def split: sum.splits if_splits)

text \<open>
  C1. A \<open>create\<close> with a number that a subject already has is expected to fail with
  \<open>Conflict\<close> and to persist nothing. \<open>create\<close> looks the number up and drops the answer:
  no branch of it raises \<open>Conflict\<close> (\<open>create_never_Conflict\<close>). Run on the example data with
  the number of subject A and a center of the caller other than A's: the insert is
  attempted, the unique constraint of the storage rejects it, and the call fails with the
  storage's error. Nothing is persisted.
\<close>

theorem create_duplicate_number:
  "fst (create exampleEnv exampleDb dtoDuplicate ''alice'') = Inl QueryFailed \<and>
   fst (create exampleEnv exampleDb dtoDuplicate ''alice'') \<noteq> Inl Conflict \<and>
   snd (create exampleEnv exampleDb dtoDuplicate ''alice'') = exampleDb"
  by (simp add: create_def saveNew_def newSubject_def example_defs dtoDuplicate_def Let_def)

section \<open>The diff of an update\<close>

text \<open>
  The tests on \<^verbatim>\<open>number\<close> and \<^verbatim>\<open>name\<close> compare the property of the payload with the stored
  value and do not ask whether the payload has the property: an absent property is
  \<^verbatim>\<open>undefined\<close>, which differs from every string. The tests on \<^verbatim>\<open>birthDate\<close> and
  \<^verbatim>\<open>centerId\<close> ask first.
\<close>

lemma updateDiff_no_birthDate:
  "\<not> truthy (upd_birthDate dto) \<Longrightarrow>
   updateDiff e old dto uid =
     Inr (numberDiff old dto @ nameDiff old dto @ centerDiff e old dto uid)"
  by (simp add: updateDiff_def birthDateDiff_def truthy_def split: option.splits)

lemma updateDiff_birthDate:
  "truthy (upd_birthDate dto) \<Longrightarrow> updateDiff e old dto uid = Inl ReferenceError"
  by (simp add: updateDiff_def birthDateDiff_def truthy_def split: option.splits)

lemma updateDiff_absent_number:
  "upd_number dto = None \<Longrightarrow> updateDiff e old dto uid = Inr d \<Longrightarrow>
   map_of d ''number'' = Some (JObj [(''old'', JStr (number old)), (''new'', JUndefined)])"
  by (auto simp: updateDiff_def numberDiff_def optJson_def split: sum.splits)

lemma updateDiff_absent_name:
  "upd_number dto = Some (number old) \<Longrightarrow> upd_name dto = None \<Longrightarrow>
   updateDiff e old dto uid = Inr d \<Longrightarrow>
   map_of d ''name'' = Some (JObj [(''old'', JStr (name old)), (''new'', JUndefined)])"
  by (auto simp: updateDiff_def numberDiff_def nameDiff_def optJson_def split: sum.splits)

lemma updateDiff_absent_centerId:
  "upd_centerId dto = None \<Longrightarrow> updateDiff e old dto uid = Inr d \<Longrightarrow> map_of d ''center'' = None"
  by (auto simp: diff_defs Let_def split: option.splits sum.splits if_splits)

text \<open>
  The diff is empty exactly when the payload has the stored number and the stored name,
  has no birth date, and has no center or the stored one.
\<close>

lemma updateDiff_empty_iff:
  "updateDiff e old dto uid = Inr [] \<longleftrightarrow>
     upd_number dto = Some (number old) \<and> upd_name dto = Some (name old) \<and>
     \<not> truthy (upd_birthDate dto) \<and>
     (upd_centerId dto = None \<or> upd_centerId dto = Some [] \<or>
      upd_centerId dto = Some (centerId old))"
  by (auto simp: diff_defs truthy_def Let_def split: option.splits)

text \<open>
  C2. A field is expected in the diff only when its supplied value differs from the
  stored one, and an update that changes no value is expected to write no AuditLogEntry.
  Run on the example data with the payload \<^verbatim>\<open>{name: "John Doe"}\<close>, the stored name of
  subject A: the diff has an entry for \<^verbatim>\<open>number\<close>, which the payload does not supply, and an
  UPDATE entry is appended to the audit log.
\<close>

theorem update_same_name_audited:
  "update exampleEnv exampleDb idA (nameOnly ''John Doe'') ''alice'' =
     (Inr subjectA,
      exampleDb\<lparr>auditLogs := auditLogs exampleDb @
        [\<lparr>log_id = ''log-2'', subjectId = Some idA, userId = Some ''alice'',
          action = ''UPDATE'',
          diff = JObj [(''number'', JObj [(''old'', JStr ''SUB-001'')]),
                       (''subjectId'', JStr idA)],
          timestamp = 20\<rparr>]\<rparr>)"
  by (simp add: update_def findOne_def saveLoaded_def objectAssign_def createAuditLog_def
      auditWriteRejected_def auditEntry_def uuid_defs diff_defs nameOnly_def example_defs
      Let_def)

section \<open>Two writes and no transaction\<close>

text \<open>
  C3, as the spec has it: a create or an update persists the subject and its
  AuditLogEntry together or not at all. \<open>create\<close> saves the subject and then calls
  \<open>createAuditLog\<close>, with nothing that undoes the first write when the second fails. At a
  moment when the storage rejects the insert into \<^verbatim>\<open>audit_log\<close>, the call fails, subject B
  is in the table and the audit log has no entry for it.
\<close>

theorem create_audit_write_fails:
  "fst (create failingEnv exampleDb dtoB ''alice'') = Inl QueryFailed \<and>
   subjects (snd (create failingEnv exampleDb dtoB ''alice'')) = [subjectA, subjectB] \<and>
   subjects exampleDb = [subjectA] \<and>
   auditLogs (snd (create failingEnv exampleDb dtoB ''alice'')) = auditLogs exampleDb"
  by (simp add: create_def saveNew_def newSubject_def createAuditLog_def auditWriteRejected_def
      failingEnv_def example_defs dtoB_def Let_def)

text \<open>
  An update whose payload has a birth date stops after the subject is written: the
  test on the birth date throws, and no entry is written for the change.
\<close>

lemma update_birthDate_throws:
  assumes "findOne e st i uid = Inr old" and "truthy (upd_birthDate dto)"
    and "saveLoaded (objectAssign e old dto) (centerId old) (subjects st) = Inr rows"
  shows "update e st i dto uid = (Inl ReferenceError, st\<lparr>subjects := rows\<rparr>)"
  using assms by (simp add: update_def updateDiff_birthDate Let_def)

text \<open>
  C3, amended. \<open>create\<close> and \<open>update\<close> write the subject first and its AuditLogEntry second,
  as two writes. When the storage rejects the subject, nothing is persisted and the call
  fails with the storage's error. When it accepts the subject and the audit entry, both
  are persisted and the call returns the subject. When it accepts the subject and rejects
  the audit entry, the call fails and the subject stays persisted. For \<open>update\<close> this is
  stated for the payloads without a birth date, for which the diff is computed; the row
  that is written keeps the center it had, and an update whose diff is empty writes the
  subject alone.
\<close>

theorem create_update_two_writes:
  "(findUserCenters e uid = Inr scope \<and> dto_centerId dto \<in> set scope \<longrightarrow>
      (saveNew (newSubject e dto) (subjects st) = Inl err \<longrightarrow>
         create e st dto uid = (Inl err, st)) \<and>
      (saveNew (newSubject e dto) (subjects st) = Inr rows \<longrightarrow>
         rows = subjects st @ [newSubject e dto] \<and>
         create e st dto uid =
           (if auditLogInsertFails e \<or> uuidIn e (generatedSubjectId e) = None
            then (Inl QueryFailed, st\<lparr>subjects := rows\<rparr>)
            else (Inr (newSubject e dto),
                  st\<lparr>subjects := rows, auditLogs := auditLogs st @
                    [auditEntry e uid (subj_id (newSubject e dto)) ''CREATE''
                       (createDiff (newSubject e dto))]\<rparr>)))) \<and>
   (findOne e st i uid = Inr old \<and> \<not> truthy (upd_birthDate udto) \<longrightarrow>
      (\<exists>d. updateDiff e old udto uid = Inr d) \<and>
      (saveLoaded (objectAssign e old udto) (centerId old) (subjects st) = Inl err \<longrightarrow>
         update e st i udto uid = (Inl err, st)) \<and>
      (saveLoaded (objectAssign e old udto) (centerId old) (subjects st) = Inr rows \<longrightarrow>
         rows = map (\<lambda>r. if subj_id r = subj_id old
                          then (objectAssign e old udto)\<lparr>centerId := centerId old\<rparr> else r)
                  (subjects st) \<and>
         update e st i udto uid =
           (if updateDiff e old udto uid = Inr [] then
              (Inr (objectAssign e old udto), st\<lparr>subjects := rows\<rparr>)
            else if auditLogInsertFails e then (Inl QueryFailed, st\<lparr>subjects := rows\<rparr>)
            else (Inr (objectAssign e old udto),
                  st\<lparr>subjects := rows, auditLogs := auditLogs st @
                    [auditEntry e uid i ''UPDATE''
                       (JObj (numberDiff old udto @ nameDiff old udto @
                              centerDiff e old udto uid @ [(''subjectId'', JStr i)]))]\<rparr>))))"
proof -
  have ins: "rows = subjects st @ [newSubject e dto]"
    if "saveNew (newSubject e dto) (subjects st) = Inr rows"
    using that by (simp add: saveNew_def split: if_splits)
  have sid: "subj_id (newSubject e dto) = generatedSubjectId e"
    by (simp add: newSubject_def)
  have id_kept: "subj_id (objectAssign e old udto) = subj_id old"
    by (simp add: objectAssign_def)
  have upd: "rows = map (\<lambda>r. if subj_id r = subj_id old
                          then (objectAssign e old udto)\<lparr>centerId := centerId old\<rparr> else r)
                  (subjects st)"
    if "saveLoaded (objectAssign e old udto) (centerId old) (subjects st) = Inr rows"
    using saveLoaded_rows [OF that] by (simp add: id_kept)
  have parsed: "\<not> auditWriteRejected e i \<longleftrightarrow> \<not> auditLogInsertFails e"
    if "findOne e st i uid = Inr old"
    using findOne_Inr [OF that] by (auto simp: auditWriteRejected_def)
  have c: "findUserCenters e uid = Inr scope \<and> dto_centerId dto \<in> set scope \<longrightarrow>
      (saveNew (newSubject e dto) (subjects st) = Inl err \<longrightarrow>
         create e st dto uid = (Inl err, st)) \<and>
      (saveNew (newSubject e dto) (subjects st) = Inr rows \<longrightarrow>
         rows = subjects st @ [newSubject e dto] \<and>
         create e st dto uid =
           (if auditLogInsertFails e \<or> uuidIn e (generatedSubjectId e) = None
            then (Inl QueryFailed, st\<lparr>subjects := rows\<rparr>)
            else (Inr (newSubject e dto),
                  st\<lparr>subjects := rows, auditLogs := auditLogs st @
                    [auditEntry e uid (subj_id (newSubject e dto)) ''CREATE''
                       (createDiff (newSubject e dto))]\<rparr>)))"
    using ins
    by (auto simp: create_def createAuditLog_def auditWriteRejected_def Let_def sid)
  have u: "findOne e st i uid = Inr old \<and> \<not> truthy (upd_birthDate udto) \<longrightarrow>
      (\<exists>d. updateDiff e old udto uid = Inr d) \<and>
      (saveLoaded (objectAssign e old udto) (centerId old) (subjects st) = Inl err \<longrightarrow>
         update e st i udto uid = (Inl err, st)) \<and>
      (saveLoaded (objectAssign e old udto) (centerId old) (subjects st) = Inr rows \<longrightarrow>
         rows = map (\<lambda>r. if subj_id r = subj_id old
                          then (objectAssign e old udto)\<lparr>centerId := centerId old\<rparr> else r)
                  (subjects st) \<and>
         update e st i udto uid =
           (if updateDiff e old udto uid = Inr [] then
              (Inr (objectAssign e old udto), st\<lparr>subjects := rows\<rparr>)
            else if auditLogInsertFails e then (Inl QueryFailed, st\<lparr>subjects := rows\<rparr>)
            else (Inr (objectAssign e old udto),
                  st\<lparr>subjects := rows, auditLogs := auditLogs st @
                    [auditEntry e uid i ''UPDATE''
                       (JObj (numberDiff old udto @ nameDiff old udto @
                              centerDiff e old udto uid @ [(''subjectId'', JStr i)]))]\<rparr>)))"
  proof (intro impI, elim conjE)
    assume one: "findOne e st i uid = Inr old" and nb: "\<not> truthy (upd_birthDate udto)"
    note d = updateDiff_no_birthDate [OF nb, of e old uid]
    from one upd parsed [OF one] show "(\<exists>d. updateDiff e old udto uid = Inr d) \<and>
      (saveLoaded (objectAssign e old udto) (centerId old) (subjects st) = Inl err \<longrightarrow>
         update e st i udto uid = (Inl err, st)) \<and>
      (saveLoaded (objectAssign e old udto) (centerId old) (subjects st) = Inr rows \<longrightarrow>
         rows = map (\<lambda>r. if subj_id r = subj_id old
                          then (objectAssign e old udto)\<lparr>centerId := centerId old\<rparr> else r)
                  (subjects st) \<and>
         update e st i udto uid =
           (if updateDiff e old udto uid = Inr [] then
              (Inr (objectAssign e old udto), st\<lparr>subjects := rows\<rparr>)
            else if auditLogInsertFails e then (Inl QueryFailed, st\<lparr>subjects := rows\<rparr>)
            else (Inr (objectAssign e old udto),
                  st\<lparr>subjects := rows, auditLogs := auditLogs st @
                    [auditEntry e uid i ''UPDATE''
                       (JObj (numberDiff old udto @ nameDiff old udto @
                              centerDiff e old udto uid @ [(''subjectId'', JStr i)]))]\<rparr>)))"
      by (simp add: update_def d createAuditLog_def Let_def)
  qed
  from c u show ?thesis by blast
qed

theorem create_update_two_writes_witness:
  "create exampleEnv exampleDb dtoB ''alice'' =
     (Inr subjectB,
      exampleDb\<lparr>subjects := [subjectA, subjectB], auditLogs := auditLogs exampleDb @
        [auditEntry exampleEnv ''alice'' idB ''CREATE'' (createDiff subjectB)]\<rparr>) \<and>
   update exampleEnv exampleDb idA (nameOnly ''Jane Doe'') ''alice'' =
     (Inr (subjectA\<lparr>name := ''Jane Doe''\<rparr>),
      exampleDb\<lparr>subjects := [subjectA\<lparr>name := ''Jane Doe''\<rparr>],
        auditLogs := auditLogs exampleDb @
          [auditEntry exampleEnv ''alice'' idA ''UPDATE''
             (JObj [(''number'', JObj [(''old'', JStr ''SUB-001''), (''new'', JUndefined)]),
                    (''name'', JObj [(''old'', JStr ''John Doe''), (''new'', JStr ''Jane Doe'')]),
                    (''subjectId'', JStr idA)])]\<rparr>)"
proof -
  have scope: "findUserCenters exampleEnv ''alice'' = Inr [''center-1'', ''center-2''] \<and>
      dto_centerId dtoB \<in> set [''center-1'', ''center-2'']"
    by (simp add: alice_scope dtoB_def)
  have ins: "saveNew (newSubject exampleEnv dtoB) (subjects exampleDb) = Inr [subjectA, subjectB]"
    by (simp add: newSubject_dtoB) (simp add: saveNew_def example_defs)
  have gen: "\<not> (auditLogInsertFails exampleEnv \<or> uuidIn exampleEnv (generatedSubjectId exampleEnv) = None)"
    by (simp add: uuid_defs exampleEnv_def)
  have upd: "findOne exampleEnv exampleDb idA ''alice'' = Inr subjectA \<and>
      \<not> truthy (upd_birthDate (nameOnly ''Jane Doe''))"
    by (simp add: findOne_alice_A truthy_def nameOnly_def)
  have sv: "saveLoaded (objectAssign exampleEnv subjectA (nameOnly ''Jane Doe''))
      (centerId subjectA) (subjects exampleDb) = Inr [subjectA\<lparr>name := ''Jane Doe''\<rparr>]"
    by (simp add: objectAssign_nameOnly) (simp add: saveLoaded_def example_defs)
  have d: "updateDiff exampleEnv subjectA (nameOnly ''Jane Doe'') ''alice'' \<noteq> Inr []"
    by (simp add: diff_defs nameOnly_def)
  have entries: "numberDiff subjectA (nameOnly ''Jane Doe'') @ nameDiff subjectA (nameOnly ''Jane Doe'') @
      centerDiff exampleEnv subjectA (nameOnly ''Jane Doe'') ''alice'' =
      [(''number'', JObj [(''old'', JStr ''SUB-001''), (''new'', JUndefined)]),
       (''name'', JObj [(''old'', JStr ''John Doe''), (''new'', JStr ''Jane Doe'')])]"
    by (simp add: diff_defs nameOnly_def subjectA_def)
  note inst = create_update_two_writes [where e = exampleEnv and uid = "''alice''"
        and scope = "[''center-1'', ''center-2'']" and dto = dtoB and st = exampleDb
        and rows = "[subjectA, subjectB]" and err = QueryFailed and i = idA and old = subjectA
        and udto = "nameOnly ''Jane Doe''"]
  from inst [THEN conjunct1, THEN mp, OF scope, THEN conjunct2, THEN mp, OF ins, THEN conjunct2]
    gen
  have c: "create exampleEnv exampleDb dtoB ''alice'' =
     (Inr (newSubject exampleEnv dtoB),
      exampleDb\<lparr>subjects := [subjectA, subjectB], auditLogs := auditLogs exampleDb @
        [auditEntry exampleEnv ''alice'' (subj_id (newSubject exampleEnv dtoB)) ''CREATE''
           (createDiff (newSubject exampleEnv dtoB))]\<rparr>)"
    by simp
  note inst2 = create_update_two_writes [where e = exampleEnv and uid = "''alice''"
        and scope = "[''center-1'', ''center-2'']" and dto = dtoB and st = exampleDb
        and rows = "[subjectA\<lparr>name := ''Jane Doe''\<rparr>]" and err = QueryFailed and i = idA
        and old = subjectA and udto = "nameOnly ''Jane Doe''"]
  from inst2 [THEN conjunct2, THEN mp, OF upd, THEN conjunct2, THEN conjunct2, THEN mp, OF sv,
      THEN conjunct2] d audit_insert_ok
  have u: "update exampleEnv exampleDb idA (nameOnly ''Jane Doe'') ''alice'' =
     (Inr (objectAssign exampleEnv subjectA (nameOnly ''Jane Doe'')),
      exampleDb\<lparr>subjects := [subjectA\<lparr>name := ''Jane Doe''\<rparr>],
        auditLogs := auditLogs exampleDb @
          [auditEntry exampleEnv ''alice'' idA ''UPDATE''
             (JObj (numberDiff subjectA (nameOnly ''Jane Doe'') @
                    nameDiff subjectA (nameOnly ''Jane Doe'') @
                    centerDiff exampleEnv subjectA (nameOnly ''Jane Doe'') ''alice'' @
                    [(''subjectId'', JStr idA)]))]\<rparr>)"
    by simp
  have u': "update exampleEnv exampleDb idA (nameOnly ''Jane Doe'') ''alice'' =
     (Inr (subjectA\<lparr>name := ''Jane Doe''\<rparr>),
      exampleDb\<lparr>subjects := [subjectA\<lparr>name := ''Jane Doe''\<rparr>],
        auditLogs := auditLogs exampleDb @
          [auditEntry exampleEnv ''alice'' idA ''UPDATE''
             (JObj [(''number'', JObj [(''old'', JStr ''SUB-001''), (''new'', JUndefined)]),
                    (''name'', JObj [(''old'', JStr ''John Doe''), (''new'', JStr ''Jane Doe'')]),
                    (''subjectId'', JStr idA)])]\<rparr>)"
    using u entries by (simp add: objectAssign_nameOnly append_assoc [symmetric] del: append_assoc)
  from c u' show ?thesis
    by (simp add: newSubject_dtoB) (simp add: subjectB_def)
qed

section \<open>Reading one subject: not found before forbidden\<close>

text \<open>
  C4, as the spec has it: \<open>findOne\<close> fails with \<open>NotFound\<close> whenever no subject has the
  identifier. The identifier is any text of the request, and the storage is asked for
  the row whose uuid it is: for a text that is no uuid the storage rejects the query. No
  subject of the example has the identifier \<^verbatim>\<open>SUB-001\<close>, and the call does not fail with
  \<open>NotFound\<close>.
\<close>

theorem findOne_not_a_uuid:
  "\<not> list_ex (\<lambda>s. subj_id s = ''SUB-001'') (subjects exampleDb) \<and>
   findOne exampleEnv exampleDb ''SUB-001'' ''alice'' = Inl QueryFailed \<and>
   findOne exampleEnv exampleDb ''SUB-001'' ''alice'' \<noteq> Inl NotFound"
  by (simp add: findOne_def uuidIn_SUB_001) (simp add: example_defs)

text \<open>
  C4, amended. Let the identifier be a text that the storage reads as a uuid; a text of
  the shape 8-4-4-4-12 is one, in either letter case, and it is the uuid of its lower-case
  text. \<open>findOne\<close> fails with \<open>NotFound\<close> when no subject has that uuid, whatever the scope
  of the caller is and even when the scope cannot be resolved: the row is looked up first.
  When the subject exists and its center is not in the resolved scope of the caller,
  \<open>findOne\<close> fails with \<open>Forbidden\<close>, which is another error than \<open>NotFound\<close>. For a text
  that the storage does not read as a uuid, \<open>findOne\<close> fails with the storage's error.
\<close>

theorem findOne_errors:
  "(isUUID i \<longrightarrow> uuidIn e i = Some (map lowerHex i)) \<and>
   (uuidIn e i = Some u \<and> (\<forall>s\<in>set (subjects st). subj_id s \<noteq> u)
      \<longrightarrow> findOne e st i uid = Inl NotFound) \<and>
   (uuidIn e i = Some u \<and> distinct (map subj_id (subjects st)) \<and> s \<in> set (subjects st) \<and>
    subj_id s = u \<and> findUserCenters e uid = Inr scope \<and> centerId s \<notin> set scope
      \<longrightarrow> findOne e st i uid = Inl Forbidden) \<and>
   (uuidIn e i = None \<longrightarrow> findOne e st i uid = Inl QueryFailed) \<and>
   NotFound \<noteq> Forbidden"
proof (intro conjI impI)
  assume "isUUID i"
  then show "uuidIn e i = Some (map lowerHex i)" by (rule uuidIn_isUUID)
next
  assume h: "uuidIn e i = Some u \<and> (\<forall>s\<in>set (subjects st). subj_id s \<noteq> u)"
  then have "find (\<lambda>s. subj_id s = u) (subjects st) = None"
    by (simp add: find_None_iff)
  with h show "findOne e st i uid = Inl NotFound"
    by (simp add: findOne_def)
next
  assume h: "uuidIn e i = Some u \<and> distinct (map subj_id (subjects st)) \<and>
    s \<in> set (subjects st) \<and> subj_id s = u \<and>
    findUserCenters e uid = Inr scope \<and> centerId s \<notin> set scope"
  then have "find (\<lambda>r. subj_id r = subj_id s) (subjects st) = Some s"
    using find_by_key [of subj_id "subjects st" s] by blast
  with h show "findOne e st i uid = Inl Forbidden"
    by (auto simp: findOne_def)
next
  assume "uuidIn e i = None"
  then show "findOne e st i uid = Inl QueryFailed"
    by (simp add: findOne_def)
next
  show "NotFound \<noteq> Forbidden" by simp
qed

theorem findOne_errors_witness:
  "findOne exampleEnv exampleDb idB ''dave'' = Inl NotFound \<and>
   findOne exampleEnv exampleDb idA ''carol'' = Inl Forbidden \<and>
   findOne exampleEnv exampleDb idA_upper ''carol'' = Inl Forbidden \<and>
   findOne exampleEnv exampleDb idA_upper ''alice'' = Inr subjectA"
proof -
  have none: "uuidIn exampleEnv idB = Some idB \<and>
      (\<forall>s\<in>set (subjects exampleDb). subj_id s \<noteq> idB)"
    by (simp add: uuidIn_idB) (simp add: example_defs)
  have upper: "uuidIn exampleEnv idA_upper = Some (map lowerHex idA_upper)"
    using findOne_errors [where e = exampleEnv and i = idA_upper, THEN conjunct1]
      isUUID_idA_upper by blast
  have out: "uuidIn exampleEnv i = Some idA \<and> distinct (map subj_id (subjects exampleDb)) \<and>
      subjectA \<in> set (subjects exampleDb) \<and> subj_id subjectA = idA \<and>
      findUserCenters exampleEnv ''carol'' = Inr [''center-3''] \<and>
      centerId subjectA \<notin> set [''center-3'']"
    if "uuidIn exampleEnv i = Some idA" for i
    using that by (simp add: example_defs)
  note t = findOne_errors [where e = exampleEnv and st = exampleDb]
  from t [where i = idB and u = idB and uid = "''dave''", THEN conjunct2, THEN conjunct1,
      THEN mp, OF none]
  have a: "findOne exampleEnv exampleDb idB ''dave'' = Inl NotFound" .
  from t [where i = idA and u = idA and uid = "''carol''" and s = subjectA
      and scope = "[''center-3'']", THEN conjunct2, THEN conjunct2, THEN conjunct1,
      THEN mp, OF out [OF uuidIn_idA]]
  have b: "findOne exampleEnv exampleDb idA ''carol'' = Inl Forbidden" .
  from t [where i = idA_upper and u = idA and uid = "''carol''" and s = subjectA
      and scope = "[''center-3'']", THEN conjunct2, THEN conjunct2, THEN conjunct1,
      THEN mp, OF out [OF uuidIn_idA_upper]]
  have c: "findOne exampleEnv exampleDb idA_upper ''carol'' = Inl Forbidden" .
  have d: "findOne exampleEnv exampleDb idA_upper ''alice'' = Inr subjectA"
    using upper by (simp add: findOne_def lowerHex_def) (simp add: example_defs)
  from a b c d show ?thesis by blast
qed

section \<open>Listing subjects: the scope of the caller, ordered by number\<close>

text \<open>
  C5. When the scope of the caller is empty, \<open>findAll\<close> returns the empty list and no
  error. Otherwise it returns the subjects whose center is in the scope, each one once,
  in ascending order of their numbers (the order of strings is lexicographic on the
  character codes, so it is case-sensitive).
\<close>

theorem findAll_scope:
  "(findUserCenters e uid = Inr [] \<longrightarrow> findAll e st uid = Inr []) \<and>
   (findUserCenters e uid = Inr scope \<and> scope \<noteq> [] \<longrightarrow>
      (\<exists>r. findAll e st uid = Inr r \<and>
           mset r = filter_mset (\<lambda>s. centerId s \<in> set scope) (mset (subjects st)) \<and>
           sorted (map number r)))"
  by (auto simp: findAll_def)

theorem findAll_scope_witness:
  "findAll exampleEnv exampleDb ''bob'' = Inr [] \<and>
   (\<exists>r. findAll exampleEnv exampleDb ''alice'' = Inr r \<and>
        mset r = filter_mset (\<lambda>s. centerId s \<in> set [''center-1'', ''center-2''])
                   (mset (subjects exampleDb)) \<and>
        sorted (map number r))"
proof
  show "findAll exampleEnv exampleDb ''bob'' = Inr []"
    using findAll_scope [where e = exampleEnv and uid = "''bob''" and st = exampleDb]
    by (simp add: exampleEnv_def exampleScopes_def)
next
  show "\<exists>r. findAll exampleEnv exampleDb ''alice'' = Inr r \<and>
        mset r = filter_mset (\<lambda>s. centerId s \<in> set [''center-1'', ''center-2''])
                   (mset (subjects exampleDb)) \<and>
        sorted (map number r)"
    using findAll_scope [where e = exampleEnv and uid = "''alice''" and st = exampleDb
        and scope = "[''center-1'', ''center-2'']"]
    by (simp add: exampleEnv_def exampleScopes_def)
qed

section \<open>The shape of the diff entries\<close>

lemma update_audited:
  assumes "findOne e st i uid = Inr old" and "\<not> truthy (upd_birthDate dto)"
    and "saveLoaded (objectAssign e old dto) (centerId old) (subjects st) = Inr rows"
    and "\<not> auditLogInsertFails e"
    and "numberDiff old dto @ nameDiff old dto @ centerDiff e old dto uid \<noteq> []"
  shows "update e st i dto uid =
           (Inr (objectAssign e old dto),
            st\<lparr>subjects := rows, auditLogs := auditLogs st @
              [auditEntry e uid i ''UPDATE''
                 (JObj (numberDiff old dto @ nameDiff old dto @ centerDiff e old dto uid @
                        [(''subjectId'', JStr i)]))]\<rparr>)"
proof -
  from findOne_Inr [OF assms(1)] assms(4) have "\<not> auditWriteRejected e i"
    by (auto simp: auditWriteRejected_def)
  with assms show ?thesis
    by (simp add: update_def updateDiff_no_birthDate createAuditLog_def Let_def)
qed

lemma center_entry:
  assumes "upd_centerId dto = Some c" and "c \<noteq> []" and "c \<noteq> centerId old"
  shows "arrow (diff (auditEntry e uid i act
            (JObj (numberDiff old dto @ nameDiff old dto @ centerDiff e old dto uid @
                   [(''subjectId'', JStr i)])))) ''center'' =
         Some (JObj [(''old'', JObj [(''id'', JStr (centerId old)),
                        (''name'', JStr (centerNameOrUnknown (centersFindOne e (centerId old) uid)))]),
                     (''new'', JObj [(''id'', JStr c),
                        (''name'', JStr (centerNameOrUnknown (centersFindOne e c uid)))])])"
  using assms by (simp add: auditEntry_def diff_defs Let_def split: option.splits)

lemma name_entry:
  assumes "upd_name dto = Some x" and "x \<noteq> name old"
  shows "arrow (diff (auditEntry e uid i act
            (JObj (numberDiff old dto @ nameDiff old dto @ centerDiff e old dto uid @
                   [(''subjectId'', JStr i)])))) ''name'' =
         Some (JObj [(''old'', JStr (name old)), (''new'', JStr x)])"
  using assms by (simp add: auditEntry_def diff_defs Let_def split: option.splits)

text \<open>
  For a payload without a birth date, on an update that passes \<open>findOne\<close> and whose
  writes the storage accepts: a center other than the stored one gives, under \<^verbatim>\<open>center\<close>,
  the pair of the \<^verbatim>\<open>{id, name}\<close> objects of the old and the new center, with \<^verbatim>\<open>Unknown\<close> for
  a center that \<open>centersFindOne\<close> does not return; a name other than the stored one gives,
  under \<^verbatim>\<open>name\<close>, the flat pair of the old and the new string.
\<close>

lemma update_diff_shapes_without_birthDate:
  assumes "findOne e st i uid = Inr old" and "\<not> truthy (upd_birthDate dto)"
    and "saveLoaded (objectAssign e old dto) (centerId old) (subjects st) = Inr rows"
    and "\<not> auditLogInsertFails e"
  shows "(upd_centerId dto = Some c \<and> c \<noteq> [] \<and> c \<noteq> centerId old \<longrightarrow>
           (\<exists>l. update e st i dto uid =
                  (Inr (objectAssign e old dto),
                   st\<lparr>subjects := rows, auditLogs := auditLogs st @ [l]\<rparr>) \<and>
                action l = ''UPDATE'' \<and>
                arrow (diff l) ''center'' =
                  Some (JObj [(''old'', JObj [(''id'', JStr (centerId old)),
                                 (''name'', JStr (centerNameOrUnknown
                                    (centersFindOne e (centerId old) uid)))]),
                              (''new'', JObj [(''id'', JStr c),
                                 (''name'', JStr (centerNameOrUnknown
                                    (centersFindOne e c uid)))])]))) \<and>
         (upd_name dto = Some x \<and> x \<noteq> name old \<longrightarrow>
           (\<exists>l. update e st i dto uid =
                  (Inr (objectAssign e old dto),
                   st\<lparr>subjects := rows, auditLogs := auditLogs st @ [l]\<rparr>) \<and>
                action l = ''UPDATE'' \<and>
                arrow (diff l) ''name'' =
                  Some (JObj [(''old'', JStr (name old)), (''new'', JStr x)])))"
proof (intro conjI impI)
  assume h: "upd_centerId dto = Some c \<and> c \<noteq> [] \<and> c \<noteq> centerId old"
  then have "numberDiff old dto @ nameDiff old dto @ centerDiff e old dto uid \<noteq> []"
    by (simp add: centerDiff_def Let_def)
  from update_audited [OF assms this] center_entry [of dto c old e uid i "''UPDATE''"] h
  show "\<exists>l. update e st i dto uid =
                  (Inr (objectAssign e old dto),
                   st\<lparr>subjects := rows, auditLogs := auditLogs st @ [l]\<rparr>) \<and>
                action l = ''UPDATE'' \<and>
                arrow (diff l) ''center'' =
                  Some (JObj [(''old'', JObj [(''id'', JStr (centerId old)),
                                 (''name'', JStr (centerNameOrUnknown
                                    (centersFindOne e (centerId old) uid)))]),
                              (''new'', JObj [(''id'', JStr c),
                                 (''name'', JStr (centerNameOrUnknown
                                    (centersFindOne e c uid)))])])"
    by (intro exI [of _ "auditEntry e uid i ''UPDATE''
          (JObj (numberDiff old dto @ nameDiff old dto @ centerDiff e old dto uid @
                 [(''subjectId'', JStr i)]))"])
       (simp add: auditEntry_def)
next
  assume h: "upd_name dto = Some x \<and> x \<noteq> name old"
  then have "numberDiff old dto @ nameDiff old dto @ centerDiff e old dto uid \<noteq> []"
    by (simp add: nameDiff_def)
  from update_audited [OF assms this] name_entry [of dto x old e uid i "''UPDATE''"] h
  show "\<exists>l. update e st i dto uid =
                  (Inr (objectAssign e old dto),
                   st\<lparr>subjects := rows, auditLogs := auditLogs st @ [l]\<rparr>) \<and>
                action l = ''UPDATE'' \<and>
                arrow (diff l) ''name'' =
                  Some (JObj [(''old'', JStr (name old)), (''new'', JStr x)])"
    by (intro exI [of _ "auditEntry e uid i ''UPDATE''
          (JObj (numberDiff old dto @ nameDiff old dto @ centerDiff e old dto uid @
                 [(''subjectId'', JStr i)]))"])
       (simp add: auditEntry_def)
qed

text \<open>
  The payload of the example without the birth date: the entry has the flat pair of the
  names and the nested pair of the centers, with \<^verbatim>\<open>Unknown\<close> for the center that is not
  known. The call returns the entity with the new center; the row keeps the old one.
\<close>

lemma update_center_without_birthDate:
  "update exampleEnv exampleDb idA dtoMoveNoDate ''alice'' =
     (Inr (subjectA\<lparr>name := ''Jane Doe'', centerId := centerNew\<rparr>),
      exampleDb\<lparr>subjects := [subjectA\<lparr>name := ''Jane Doe''\<rparr>],
        auditLogs := auditLogs exampleDb @
          [\<lparr>log_id = ''log-2'', subjectId = Some idA, userId = Some ''alice'',
            action = ''UPDATE'',
            diff = JObj [(''name'', JObj [(''old'', JStr ''John Doe''), (''new'', JStr ''Jane Doe'')]),
                         (''center'',
                          JObj [(''old'', JObj [(''id'', JStr ''center-1''),
                                                (''name'', JStr ''Center A'')]),
                                (''new'', JObj [(''id'', JStr centerNew),
                                                (''name'', JStr ''Unknown'')])]),
                         (''subjectId'', JStr idA)],
            timestamp = 20\<rparr>]\<rparr>)"
  by (simp add: update_def findOne_def saveLoaded_def objectAssign_def createAuditLog_def
      auditWriteRejected_def auditEntry_def uuid_defs diff_defs centerNameOrUnknown_def
      dtoMoveNoDate_def example_defs Let_def)

text \<open>
  C6. An update that changes the center is expected to record the nested pair of the
  old and the new center, and not to be aborted. Run on the example data with the payload
  that the form sends, which has the birth date beside the new name and the new center:
  the subject is written, the test on the birth date throws at the variable that is not
  declared, the call fails and no entry is written.
\<close>

theorem update_center_with_birthDate_throws:
  "update exampleEnv exampleDb idA dtoMove ''alice'' =
     (Inl ReferenceError, exampleDb\<lparr>subjects := [subjectA\<lparr>name := ''Jane Doe''\<rparr>]\<rparr>)"
  by (simp add: update_def findOne_def saveLoaded_def objectAssign_def uuid_defs diff_defs
      dtoMove_def example_defs Let_def)

section \<open>An update that supplies the name alone\<close>



section \<open>Resolving the subject of an audit history\<close>












lemma getAuditLogs_OLD_7:
  "getAuditLogs exampleEnv historyDb ''OLD-7'' ''alice'' = Inr [logA3, logA2, logA1, logA0]"
  by (simp add: getAuditLogs_def resolveSubjectId_def numberMatches_def arrowText_def
      createDiff_def truthy_def auditLogsOf_def references_def accessControl_def
      subjectCenter_def uuid_defs history_defs example_defs Let_def)

lemma getAuditLogs_idA_upper:
  "getAuditLogs exampleEnv historyDb idA_upper ''alice'' = Inr [logA3, logA2, logA1, logA0]"
  by (simp add: getAuditLogs_def resolveSubjectId_def numberMatches_def arrowText_def
      createDiff_def truthy_def auditLogsOf_def references_def accessControl_def
      subjectCenter_def uuid_defs history_defs example_defs Let_def)


section \<open>The access check of an audit history\<close>

text \<open>
  C8. When a subject identifier is resolved, the center of that subject is known (from
  its row, or from the history for a subject without row) and it is not in the scope of
  the caller, \<open>getAuditLogs\<close> fails with \<open>Forbidden\<close>: no entry is returned.
\<close>

theorem getAuditLogs_forbidden:
  assumes "resolveSubjectId e st n = Some sid" and "sid \<noteq> []"
    and "subjectCenter e st sid = Some c"
    and "findUserCenters e uid = Inr scope" and "c \<notin> set scope"
  shows "getAuditLogs e st n uid = Inl Forbidden"
proof -
  from assms(3) obtain u where "uuidIn e sid = Some u"
    by (auto simp: subjectCenter_def split: option.splits)
  with assms show ?thesis
    by (simp add: getAuditLogs_def auditLogsOf_def accessControl_def)
qed

theorem getAuditLogs_forbidden_witness:
  "getAuditLogs exampleEnv exampleDb ''SUB-001'' ''carol'' = Inl Forbidden"
proof -
  have r: "resolveSubjectId exampleEnv exampleDb ''SUB-001'' = Some idA"
    by (simp add: resolveSubjectId_def not_isUUID_SUB_001) (simp add: example_defs)
  have c: "subjectCenter exampleEnv exampleDb idA = Some ''center-1''"
    by (simp add: subjectCenter_def uuidIn_idA) (simp add: example_defs)
  have s: "findUserCenters exampleEnv ''carol'' = Inr [''center-3'']"
    by (simp add: example_defs)
  show ?thesis
    using getAuditLogs_forbidden [OF r _ c s] by simp
qed

section \<open>An input of the shape of a UUID\<close>



text \<open>
  Subject U has a number of the shape of a UUID, in upper and lower case, that is
  another uuid than its identifier, and one entry in the audit log. Asked for by the
  number, its history is empty; asked for by the identifier, in either letter case, it is
  the entry.
\<close>

lemma getAuditLogs_by_identifier_U:
  "getAuditLogs exampleEnv dbU idU ''alice'' = Inr [logU] \<and>
   getAuditLogs exampleEnv dbU idU_upper ''alice'' = Inr [logU]"
  by (simp add: getAuditLogs_def resolveSubjectId_def auditLogsOf_def references_def
      arrowText_def createDiff_def accessControl_def subjectCenter_def uuid_defs dbU_def
      logU_def subjectU_def example_defs Let_def)


end
